theory Spec2Isabelle
  imports Complex_Main "HOL-Library.AList" "HOL-Library.Multiset" "HOL-Library.Product_Lexorder"
    "HOL-Library.Char_ord" "HOL-Library.List_Lexorder"
begin

section \<open>The table of tickets\<close>

text \<open>
  The program (\<^verbatim>\<open>app.py\<close>) is one pass over a pandas table. The model starts where the
  columns have the types the program gives them (lines 16 to 32):
  \<^item> the four date columns have been through \<^verbatim>\<open>pd.to_datetime(..., errors='coerce')\<close>, so a cell
    is an instant or \<^verbatim>\<open>NaT\<close>: \<open>timestamp option\<close>, the instant counted in nanoseconds since
    the epoch as pandas stores it, in a signed 64-bit integer;
  \<^item> \<^verbatim>\<open>Priority\<close> is a categorical over \<^verbatim>\<open>priority_order\<close>: a value outside the five
    categories is null, \<open>priority option\<close>;
  \<^item> \<^verbatim>\<open>Case Origin\<close> is a text cell or an empty one (\<^verbatim>\<open>NaN\<close>): \<open>string option\<close>;
  \<^item> \<^verbatim>\<open>Month-Year\<close> is the label written by line 21, null where the restoration date is;
  \<^item> every other column, the two derived metric columns among them once lines 47 and 48 have
    run, is an entry of the association list \<open>extra\<close>, kept in column order.

  Numbers are rationals: the floating-point quotient of Python is read as the exact quotient.
  Text is a string of 8-bit characters, read as the code points U+0000 to U+00FF.
\<close>

type_synonym timestamp = int

datatype priority = P1 | P2 | P3 | P4 | P5

datatype cell = NaN | Str string | Num rat | Time timestamp

record ticket =
  opened_at :: "timestamp option"
  responded_at :: "timestamp option"
  restored_at :: "timestamp option"
  opened_date :: "timestamp option"
  case_origin :: "string option"
  priority :: "priority option"
  month_year :: "string option"
  extra :: "(string \<times> cell) list"

definition priority_order :: "priority list" where
  "priority_order = [P1, P2, P3, P4, P5]"

section \<open>Strings of Python\<close>

text \<open>
  \<^verbatim>\<open>str(x)\<close> of a text cell is the text, of an empty cell (the float \<^verbatim>\<open>nan\<close>) it is
  \<^verbatim>\<open>'nan'\<close>. \<^verbatim>\<open>strip()\<close> removes the white space of Python at both ends, \<^verbatim>\<open>lower()\<close>
  maps the upper-case letters (A to Z, and the accented capitals U+00C0 to U+00DE but the
  multiplication sign) to their lower-case forms.
\<close>

definition py_str :: "string option \<Rightarrow> string" where
  "py_str v = (case v of None \<Rightarrow> ''nan'' | Some s \<Rightarrow> s)"

definition isspace :: "char \<Rightarrow> bool" where
  "isspace c = ((of_char c :: nat) \<in> set [9, 10, 11, 12, 13, 28, 29, 30, 31, 32, 133, 160])"

definition strip :: "string \<Rightarrow> string" where
  "strip s = rev (dropWhile isspace (rev (dropWhile isspace s)))"

definition lower_char :: "char \<Rightarrow> char" where
  "lower_char c =
     (let n = (of_char c :: nat)
      in if (65 \<le> n \<and> n \<le> 90) \<or> (192 \<le> n \<and> n \<le> 222 \<and> n \<noteq> 215)
         then char_of (n + 32) else c)"

definition lower :: "string \<Rightarrow> string" where
  "lower s = map lower_char s"

section \<open>The metric calculators (lines 35 to 45)\<close>

datatype error = KeyError | ValueError | OutOfBoundsDatetime

text \<open>
  \<^verbatim>\<open>a - b\<close> of two instants is a \<^verbatim>\<open>Timedelta\<close>, a count of nanoseconds in a signed 64-bit
  integer: the subtraction raises \<^verbatim>\<open>OutOfBoundsDatetime\<close> when the difference does not fit,
  and the least 64-bit value is the null \<^verbatim>\<open>NaT\<close>. \<^verbatim>\<open>total_seconds()\<close> of a null is the
  null number, and so is its quotient by sixty.
\<close>

definition timedelta :: "timestamp \<Rightarrow> timestamp \<Rightarrow> error + int option" where
  "timedelta a b =
     (let d = a - b
      in if d < - 9223372036854775808 \<or> 9223372036854775807 < d then Inl OutOfBoundsDatetime
         else if d = - 9223372036854775808 then Inr None
         else Inr (Some d))"

definition total_seconds :: "int \<Rightarrow> rat" where
  "total_seconds ns = of_int ns / 1000000000"

text \<open>\<^verbatim>\<open>(a - b).total_seconds() / 60\<close>.\<close>

definition minutes_between :: "timestamp \<Rightarrow> timestamp \<Rightarrow> error + rat option" where
  "minutes_between a b =
     (case timedelta a b of
        Inl e \<Rightarrow> Inl e
      | Inr None \<Rightarrow> Inr None
      | Inr (Some d) \<Rightarrow> Inr (Some (total_seconds d / 60)))"

definition calc_mtd :: "ticket \<Rightarrow> error + rat option" where
  "calc_mtd row =
     (if lower (strip (py_str (case_origin row))) \<in> set [''internal call logging'', ''web'']
      then Inr (Some 0)
      else (case (responded_at row, opened_at row) of
              (Some r, Some opened) \<Rightarrow> minutes_between r opened
            | _ \<Rightarrow> Inr None))"

definition calc_mtr :: "ticket \<Rightarrow> error + rat option" where
  "calc_mtr row =
     (case (restored_at row, opened_at row) of
        (Some r, Some opened) \<Rightarrow> minutes_between r opened
      | _ \<Rightarrow> Inr None)"


section \<open>Attaching the metrics (lines 47 and 48)\<close>

text \<open>
  \<^verbatim>\<open>df[col] = df.apply(f, axis=1)\<close> computes a value from every row, in order (the first row
  on which \<open>f\<close> raises ends the run), and stores the values under the column name: an
  existing column of that name is replaced where it stands, a new one is appended.
  \<^verbatim>\<open>None\<close> is stored as the null of a numeric column.
\<close>

definition metric_cell :: "rat option \<Rightarrow> cell" where
  "metric_cell v = (case v of None \<Rightarrow> NaN | Some q \<Rightarrow> Num q)"

fun apply_rows :: "(ticket \<Rightarrow> error + rat option) \<Rightarrow> ticket list \<Rightarrow> error + rat option list" where
  "apply_rows f [] = Inr []"
| "apply_rows f (row # df) =
     (case f row of
        Inl e \<Rightarrow> Inl e
      | Inr v \<Rightarrow> (case apply_rows f df of Inl e \<Rightarrow> Inl e | Inr vs \<Rightarrow> Inr (v # vs)))"

definition set_column :: "string \<Rightarrow> rat option list \<Rightarrow> ticket list \<Rightarrow> ticket list" where
  "set_column col vs df =
     map (\<lambda>(row, v). row \<lparr> extra := AList.update col (metric_cell v) (extra row) \<rparr>) (zip df vs)"

definition assign ::
    "string \<Rightarrow> (ticket \<Rightarrow> error + rat option) \<Rightarrow> ticket list \<Rightarrow> error + ticket list" where
  "assign col f df =
     (case apply_rows f df of Inl e \<Rightarrow> Inl e | Inr vs \<Rightarrow> Inr (set_column col vs df))"

definition add_metrics :: "ticket list \<Rightarrow> error + ticket list" where
  "add_metrics df =
     (case assign ''Final MTD'' calc_mtd df of
        Inl e \<Rightarrow> Inl e
      | Inr df1 \<Rightarrow> assign ''Final MTR'' calc_mtr df1)"

section \<open>The month bucket (line 21) and its parser\<close>

text \<open>
  \<^verbatim>\<open>df['Service Restored Date'].dt.strftime('%b-%Y')\<close> writes the abbreviated month name, a
  hyphen and the year in decimal, without padding (the years of 64-bit nanosecond instants,
  1677 to 2262, have four digits); \<^verbatim>\<open>NaT\<close> gives a null label. The calendar date of an
  instant is computed from its day number (days since 1970-01-01, rounded down) by the
  usual era arithmetic of the proleptic Gregorian calendar.
\<close>

definition month_names :: "string list" where
  "month_names = [''Jan'', ''Feb'', ''Mar'', ''Apr'', ''May'', ''Jun'',
                  ''Jul'', ''Aug'', ''Sep'', ''Oct'', ''Nov'', ''Dec'']"

definition civil_from_days :: "int \<Rightarrow> int \<times> nat \<times> nat" where
  "civil_from_days z =
     (let z1 = z + 719468;
          era = z1 div 146097;
          doe = z1 mod 146097;
          yoe = (doe - doe div 1460 + doe div 36524 - doe div 146096) div 365;
          doy = doe - (365 * yoe + yoe div 4 - yoe div 100);
          mp = (5 * doy + 2) div 153;
          d = doy - (153 * mp + 2) div 5 + 1;
          m = (if mp < 10 then mp + 3 else mp - 9);
          y = yoe + era * 400 + (if m \<le> 2 then 1 else 0)
      in (y, nat m, nat d))"

definition month_abbr :: "nat \<Rightarrow> string" where
  "month_abbr m = (case drop (m - 1) month_names of [] \<Rightarrow> [] | name # _ \<Rightarrow> name)"

definition digit_char :: "nat \<Rightarrow> char" where
  "digit_char d = char_of (48 + d mod 10)"

fun decimal :: "nat \<Rightarrow> string" where
  "decimal n = (if n < 10 then [digit_char n] else decimal (n div 10) @ [digit_char n])"

definition year_digits :: "int \<Rightarrow> string" where
  "year_digits y = (if y < 0 then CHR ''-'' # decimal (nat (- y)) else decimal (nat y))"

definition strftime_bY :: "timestamp \<Rightarrow> string" where
  "strftime_bY t =
     (case civil_from_days (t div 86400000000000) of
        (y, m, d) \<Rightarrow> month_abbr m @ ''-'' @ year_digits y)"

definition add_month_year :: "ticket \<Rightarrow> ticket" where
  "add_month_year row = row \<lparr> month_year := map_option strftime_bY (restored_at row) \<rparr>"

text \<open>
  \<^verbatim>\<open>pd.to_datetime(x, format='%b-%Y')\<close> reads a label back: a month name (in any case), a
  hyphen and the four digits of a year from 1 on, and raises \<^verbatim>\<open>ValueError\<close> on anything
  else. Its value is the
  first instant of that month; such instants are ordered as their pairs of year and month
  are, and the pair stands for the instant here.
\<close>

definition digit_value :: "char \<Rightarrow> nat option" where
  "digit_value c =
     (let n = (of_char c :: nat) in if 48 \<le> n \<and> n \<le> 57 then Some (n - 48) else None)"

definition month_number :: "string \<Rightarrow> nat option" where
  "month_number s = map_of (zip (map lower month_names) [1 ..< 13]) (lower s)"

definition to_datetime_bY :: "string \<Rightarrow> (int \<times> nat) option" where
  "to_datetime_bY x =
     (case (month_number (take 3 x), drop 3 x) of
        (Some m, c # ys) \<Rightarrow>
          (if c = CHR ''-'' \<and> length ys = 4
           then (case those (map digit_value ys) of
                   Some ds \<Rightarrow>
                     (if foldl (\<lambda>a d. 10 * a + d) 0 ds = 0 then None
                      else Some (int (foldl (\<lambda>a d. 10 * a + d) 0 ds), m))
                 | None \<Rightarrow> None)
           else None)
      | _ \<Rightarrow> None)"

text \<open>
  \<^verbatim>\<open>sorted(xs, key=lambda x: pd.to_datetime(label x, format='%b-%Y'))\<close>: the keys are computed
  first (one that does not parse raises), then the list is sorted by them, stably.
\<close>

definition with_keys :: "('a \<Rightarrow> 'k option) \<Rightarrow> 'a list \<Rightarrow> ('k \<times> 'a) list option" where
  "with_keys key xs = those (map (\<lambda>x. map_option (\<lambda>k. (k, x)) (key x)) xs)"

definition sorted_with_key :: "('a \<Rightarrow> ('k::linorder) option) \<Rightarrow> 'a list \<Rightarrow> error + 'a list" where
  "sorted_with_key key xs =
     (case with_keys key xs of
        None \<Rightarrow> Inl ValueError
      | Some kxs \<Rightarrow> Inr (map snd (sort_key fst kxs)))"



section \<open>The filters (lines 51 to 60)\<close>

definition dropna :: "'a option list \<Rightarrow> 'a list" where
  "dropna xs = concat (map (\<lambda>v. case v of None \<Rightarrow> [] | Some x \<Rightarrow> [x]) xs)"

text \<open>\<^verbatim>\<open>unique()\<close> keeps the first occurrence of each value, in order of appearance.\<close>

definition unique :: "'a list \<Rightarrow> 'a list" where
  "unique xs = rev (remdups (rev xs))"

definition months :: "ticket list \<Rightarrow> error + string list" where
  "months df = sorted_with_key to_datetime_bY (unique (dropna (map month_year df)))"

definition priorities :: "ticket list \<Rightarrow> priority list" where
  "priorities df = filter (\<lambda>p. p \<in> set (unique (dropna (map priority df)))) priority_order"

text \<open>
  \<^verbatim>\<open>Series.isin(values)\<close>, for a list of values that holds no null (the options of a
  multiselect are taken from \<open>months\<close> and \<open>priorities\<close>): a null cell is in no such list.
\<close>

definition isin :: "'a option \<Rightarrow> 'a list \<Rightarrow> bool" where
  "isin v xs = (case v of None \<Rightarrow> False | Some x \<Rightarrow> x \<in> set xs)"

definition filtered_df :: "ticket list \<Rightarrow> string list \<Rightarrow> priority list \<Rightarrow> ticket list" where
  "filtered_df df selected_months selected_priorities =
     filter (\<lambda>row. isin (month_year row) selected_months \<and>
                   isin (priority row) selected_priorities) df"

section \<open>The aggregator (lines 63 to 67 and 127 to 131)\<close>

text \<open>
  \<^verbatim>\<open>df.groupby(['Month-Year', 'Priority'])\<close> is written without \<^verbatim>\<open>observed=\<close>, and
  \<^verbatim>\<open>Priority\<close> is categorical (line 32). The program names no version of pandas, and the
  default differs: before pandas 3.0 it is \<^verbatim>\<open>observed=False\<close>, from 3.0 on it is
  \<^verbatim>\<open>observed=True\<close>. The default in force is the parameter \<open>observed\<close> of the model.
  \<^item> With \<open>observed\<close>, there is one group for each pair of bucket and priority that occurs
    in the table.
  \<^item> Without, there is one group for each bucket of the table and each of the five
    categories, whether or not a record has the pair; a group without records is empty.

  A record with a null key is in no group. The groups come in the order of their keys: the
  label as a string, then the priority in the order of its categories. \<^verbatim>\<open>count\<close>,
  \<^verbatim>\<open>sum\<close> and \<^verbatim>\<open>mean\<close> skip the null values of the metric column: the count and the sum
  of none are 0, the mean of none is null.
\<close>

definition metric_value :: "string \<Rightarrow> ticket \<Rightarrow> rat option" where
  "metric_value metric row =
     (case map_of (extra row) metric of Some (Num q) \<Rightarrow> Some q | _ \<Rightarrow> None)"

definition group_key :: "ticket \<Rightarrow> (string \<times> priority) option" where
  "group_key row =
     (case (month_year row, priority row) of (Some m, Some p) \<Rightarrow> Some (m, p) | _ \<Rightarrow> None)"

fun rank :: "priority \<Rightarrow> nat" where
  "rank P1 = 0"
| "rank P2 = 1"
| "rank P3 = 2"
| "rank P4 = 3"
| "rank P5 = 4"

definition group_keys :: "bool \<Rightarrow> ticket list \<Rightarrow> (string \<times> priority) list" where
  "group_keys observed df =
     (if observed
      then sort_key (\<lambda>(m, p). (m, rank p)) (unique (dropna (map group_key df)))
      else concat (map (\<lambda>m. map (\<lambda>p. (m, p)) priority_order)
                    (sort (unique (dropna (map month_year df))))))"

definition group_values :: "ticket list \<Rightarrow> string \<Rightarrow> string \<times> priority \<Rightarrow> rat list" where
  "group_values df metric k =
     dropna (map (metric_value metric) (filter (\<lambda>row. group_key row = Some k) df))"

definition mean :: "rat list \<Rightarrow> rat option" where
  "mean vs = (if vs = [] then None else Some (sum_list vs / of_nat (length vs)))"

record agg_row =
  g_month :: string
  g_priority :: priority
  g_count :: nat
  g_sum :: rat
  g_avg :: "rat option"

definition grouped_agg :: "bool \<Rightarrow> ticket list \<Rightarrow> string \<Rightarrow> agg_row list" where
  "grouped_agg observed df metric =
     map (\<lambda>(m, p). \<lparr> g_month = m, g_priority = p,
                     g_count = length (group_values df metric (m, p)),
                     g_sum = sum_list (group_values df metric (m, p)),
                     g_avg = mean (group_values df metric (m, p)) \<rparr>) (group_keys observed df)"



section \<open>The full summary (lines 126 to 151)\<close>

definition priority_name :: "priority \<Rightarrow> string" where
  "priority_name p =
     (case p of P1 \<Rightarrow> ''P1'' | P2 \<Rightarrow> ''P2'' | P3 \<Rightarrow> ''P3'' | P4 \<Rightarrow> ''P4'' | P5 \<Rightarrow> ''P5'')"

definition count_column :: "priority \<Rightarrow> string" where
  "count_column p = priority_name p @ '' (COUNT)''"

definition sum_column :: "string \<Rightarrow> priority \<Rightarrow> string" where
  "sum_column label p = priority_name p @ '' (SUM '' @ label @ '')''"

definition avg_column :: "string \<Rightarrow> priority \<Rightarrow> string" where
  "avg_column label p = priority_name p @ '' (AVG '' @ label @ '')''"

text \<open>The triad of one priority in the row of one month (lines 137 to 145).\<close>

definition triad :: "agg_row list \<Rightarrow> string \<Rightarrow> priority \<Rightarrow> cell \<times> cell \<times> cell" where
  "triad grouped m p =
     (case filter (\<lambda>g. g_priority g = p) (filter (\<lambda>g. g_month g = m) grouped) of
        g # _ \<Rightarrow> (Num (of_nat (g_count g)), Num (g_sum g), metric_cell (g_avg g))
      | [] \<Rightarrow> (Num 0, Num 0, Num 0))"

text \<open>The dictionary of one month (lines 134 to 145): each assignment sets a key.\<close>

definition summary_dict :: "agg_row list \<Rightarrow> string \<Rightarrow> string \<Rightarrow> (string \<times> cell) list" where
  "summary_dict grouped label m =
     foldl (\<lambda>row p. case triad grouped m p of
                      (c, s, a) \<Rightarrow>
                        AList.update (avg_column label p) a
                          (AList.update (sum_column label p) s
                            (AList.update (count_column p) c row)))
       [(''Month-Year'', Str m)] priority_order"

text \<open>The names of the data columns of the summary, in their order.\<close>

definition summary_columns :: "string \<Rightarrow> string list" where
  "summary_columns label =
     concat (map (\<lambda>p. [count_column p, sum_column label p, avg_column label p]) priority_order)"

text \<open>
  A table built from a list of dictionaries has the keys of the dictionaries as its columns,
  in the order of their first appearance, and a null cell where a dictionary lacks a key.
  \<^verbatim>\<open>set_index\<close> raises \<^verbatim>\<open>KeyError\<close> when the table has no column of the name (a table built
  from no dictionary has no column at all); otherwise the column becomes the row labels.
\<close>

definition columns_of :: "(string \<times> cell) list list \<Rightarrow> string list" where
  "columns_of dicts = unique (concat (map (map fst) dicts))"

definition cell_at :: "(string \<times> cell) list \<Rightarrow> string \<Rightarrow> cell" where
  "cell_at row c = (case map_of row c of None \<Rightarrow> NaN | Some v \<Rightarrow> v)"

definition set_index ::
    "string \<Rightarrow> (string \<times> cell) list list \<Rightarrow> error + (cell \<times> (string \<times> cell) list) list" where
  "set_index c dicts =
     (if c \<in> set (columns_of dicts)
      then Inr (map (\<lambda>row. (cell_at row c,
                            map (\<lambda>c'. (c', cell_at row c')) (removeAll c (columns_of dicts))))
                  dicts)
      else Inl KeyError)"

text \<open>
  \<^verbatim>\<open>summary_df.mean(numeric_only=True)\<close>: for each column that holds numbers (and nulls)
  only, the mean of its numbers; the null cells are skipped, and a column of nulls has a
  null mean.
\<close>

definition numeric :: "cell \<Rightarrow> bool" where
  "numeric v = (case v of Num q \<Rightarrow> True | NaN \<Rightarrow> True | _ \<Rightarrow> False)"

definition numbers :: "cell list \<Rightarrow> rat list" where
  "numbers vs = concat (map (\<lambda>v. case v of Num q \<Rightarrow> [q] | _ \<Rightarrow> []) vs)"

definition column_mean :: "cell list \<Rightarrow> cell" where
  "column_mean vs = metric_cell (mean (numbers vs))"

definition column :: "(cell \<times> (string \<times> cell) list) list \<Rightarrow> string \<Rightarrow> cell list" where
  "column rows c = map (\<lambda>(i, row). cell_at row c) rows"

definition mean_row :: "(cell \<times> (string \<times> cell) list) list \<Rightarrow> (string \<times> cell) list" where
  "mean_row rows =
     map (\<lambda>c. (c, column_mean (column rows c)))
       (filter (\<lambda>c. list_all numeric (column rows c))
          (case rows of [] \<Rightarrow> [] | (i, row) # _ \<Rightarrow> map fst row))"

definition full_summary ::
    "bool \<Rightarrow> ticket list \<Rightarrow> string \<Rightarrow> string \<Rightarrow> error + (cell \<times> (string \<times> cell) list) list" where
  "full_summary observed df metric label =
     (let grouped = grouped_agg observed df metric
      in case sorted_with_key to_datetime_bY (unique (map g_month grouped)) of
           Inl e \<Rightarrow> Inl e
         | Inr ms \<Rightarrow>
             (case set_index ''Month-Year'' (map (summary_dict grouped label) ms) of
                Inl e \<Rightarrow> Inl e
              | Inr summary_df \<Rightarrow> Inr (summary_df @ [(Str ''AVG'', mean_row summary_df)])))"

text \<open>
  For comparison with \<open>column_mean\<close>, following the words of the specification ("the
  column-wise arithmetic mean across all month rows"): the sum of the cells of all the rows
  over the number of rows, which is a number only when every cell is one.
\<close>

definition mean_over_all_rows :: "cell list \<Rightarrow> cell" where
  "mean_over_all_rows vs =
     (if length (numbers vs) = length vs \<and> vs \<noteq> []
      then Num (sum_list (numbers vs) / of_nat (length vs)) else NaN)"

section \<open>Sample tables\<close>

text \<open>
  Records and tables for the concrete instances below. \<open>row_A\<close> and \<open>row_B\<close> are the two
  records of the scenario of the specification: opened on 2025-01-01 at 00:00, answered
  after 10 and 5 minutes, restored after 60 and 30 minutes, the first raised by "Web".
\<close>

definition row_A :: ticket where
  "row_A = \<lparr> opened_at = Some 1735689600000000000,
             responded_at = Some 1735690200000000000,
             restored_at = Some 1735693200000000000,
             opened_date = Some 1735689600000000000,
             case_origin = Some ''  Web '',
             priority = Some P1,
             month_year = Some ''Jan-2025'',
             extra = [] \<rparr>"

definition row_B :: ticket where
  "row_B = \<lparr> opened_at = Some 1735689600000000000,
             responded_at = Some 1735689900000000000,
             restored_at = Some 1735691400000000000,
             opened_date = Some 1735689600000000000,
             case_origin = Some ''Phone'',
             priority = Some P1,
             month_year = Some ''Jan-2025'',
             extra = [] \<rparr>"



definition row_N :: ticket where
  "row_N = row_B \<lparr> restored_at := None, month_year := None \<rparr>"

definition table_N :: "ticket list" where
  "table_N = [row_B, row_N]"

definition row_X :: ticket where
  "row_X = row_A \<lparr> extra := [(''Final MTD'', Num 99), (''Owner'', Str ''ops'')] \<rparr>"

definition row_E :: ticket where
  "row_E = \<lparr> opened_at = None,
             responded_at = None,
             restored_at = Some 1764550800000000000,
             opened_date = None,
             case_origin = Some ''Phone'',
             priority = Some P1,
             month_year = Some ''Dec-2025'',
             extra = [] \<rparr>"

definition row_F :: ticket where
  "row_F = \<lparr> opened_at = Some 1764550200000000000,
             responded_at = Some 1764550320000000000,
             restored_at = Some 1764550800000000000,
             opened_date = Some 1764550200000000000,
             case_origin = None,
             priority = Some P2,
             month_year = Some ''Dec-2025'',
             extra = [] \<rparr>"

text \<open>
  \<open>upload_S\<close> is a table as lines 16 to 32 leave it, \<open>table_S\<close> is the same table with the
  two metric columns of lines 47 and 48.
\<close>

definition upload_S :: "ticket list" where
  "upload_S = [row_E, row_A, row_F, row_B]"

definition table_S :: "ticket list" where
  "table_S =
     [row_E \<lparr> extra := [(''Final MTD'', NaN), (''Final MTR'', NaN)] \<rparr>,
      row_A \<lparr> extra := [(''Final MTD'', Num 0), (''Final MTR'', Num 60)] \<rparr>,
      row_F \<lparr> extra := [(''Final MTD'', Num 2), (''Final MTR'', Num 10)] \<rparr>,
      row_B \<lparr> extra := [(''Final MTD'', Num 5), (''Final MTR'', Num 30)] \<rparr>]"


text \<open>
  The MTTR summary of \<open>table_S\<close>: \<open>summary_S\<close> with the grouping by observed keys,
  \<open>summary_U\<close> with the grouping by all categories.
\<close>

definition jan_cells :: "(string \<times> cell) list" where
  "jan_cells =
     [(''P1 (COUNT)'', Num 2), (''P1 (SUM MTTR)'', Num 90), (''P1 (AVG MTTR)'', Num 45),
      (''P2 (COUNT)'', Num 0), (''P2 (SUM MTTR)'', Num 0), (''P2 (AVG MTTR)'', Num 0),
      (''P3 (COUNT)'', Num 0), (''P3 (SUM MTTR)'', Num 0), (''P3 (AVG MTTR)'', Num 0),
      (''P4 (COUNT)'', Num 0), (''P4 (SUM MTTR)'', Num 0), (''P4 (AVG MTTR)'', Num 0),
      (''P5 (COUNT)'', Num 0), (''P5 (SUM MTTR)'', Num 0), (''P5 (AVG MTTR)'', Num 0)]"

definition dec_cells :: "(string \<times> cell) list" where
  "dec_cells =
     [(''P1 (COUNT)'', Num 0), (''P1 (SUM MTTR)'', Num 0), (''P1 (AVG MTTR)'', NaN),
      (''P2 (COUNT)'', Num 1), (''P2 (SUM MTTR)'', Num 10), (''P2 (AVG MTTR)'', Num 10),
      (''P3 (COUNT)'', Num 0), (''P3 (SUM MTTR)'', Num 0), (''P3 (AVG MTTR)'', Num 0),
      (''P4 (COUNT)'', Num 0), (''P4 (SUM MTTR)'', Num 0), (''P4 (AVG MTTR)'', Num 0),
      (''P5 (COUNT)'', Num 0), (''P5 (SUM MTTR)'', Num 0), (''P5 (AVG MTTR)'', Num 0)]"

definition avg_cells :: "(string \<times> cell) list" where
  "avg_cells =
     [(''P1 (COUNT)'', Num 1), (''P1 (SUM MTTR)'', Num 45), (''P1 (AVG MTTR)'', Num 45),
      (''P2 (COUNT)'', Num (1 / 2)), (''P2 (SUM MTTR)'', Num 5), (''P2 (AVG MTTR)'', Num 5),
      (''P3 (COUNT)'', Num 0), (''P3 (SUM MTTR)'', Num 0), (''P3 (AVG MTTR)'', Num 0),
      (''P4 (COUNT)'', Num 0), (''P4 (SUM MTTR)'', Num 0), (''P4 (AVG MTTR)'', Num 0),
      (''P5 (COUNT)'', Num 0), (''P5 (SUM MTTR)'', Num 0), (''P5 (AVG MTTR)'', Num 0)]"

definition summary_S :: "(cell \<times> (string \<times> cell) list) list" where
  "summary_S = [(Str ''Jan-2025'', jan_cells), (Str ''Dec-2025'', dec_cells), (Str ''AVG'', avg_cells)]"

definition jan_cells_U :: "(string \<times> cell) list" where
  "jan_cells_U =
     [(''P1 (COUNT)'', Num 2), (''P1 (SUM MTTR)'', Num 90), (''P1 (AVG MTTR)'', Num 45),
      (''P2 (COUNT)'', Num 0), (''P2 (SUM MTTR)'', Num 0), (''P2 (AVG MTTR)'', NaN),
      (''P3 (COUNT)'', Num 0), (''P3 (SUM MTTR)'', Num 0), (''P3 (AVG MTTR)'', NaN),
      (''P4 (COUNT)'', Num 0), (''P4 (SUM MTTR)'', Num 0), (''P4 (AVG MTTR)'', NaN),
      (''P5 (COUNT)'', Num 0), (''P5 (SUM MTTR)'', Num 0), (''P5 (AVG MTTR)'', NaN)]"

definition dec_cells_U :: "(string \<times> cell) list" where
  "dec_cells_U =
     [(''P1 (COUNT)'', Num 0), (''P1 (SUM MTTR)'', Num 0), (''P1 (AVG MTTR)'', NaN),
      (''P2 (COUNT)'', Num 1), (''P2 (SUM MTTR)'', Num 10), (''P2 (AVG MTTR)'', Num 10),
      (''P3 (COUNT)'', Num 0), (''P3 (SUM MTTR)'', Num 0), (''P3 (AVG MTTR)'', NaN),
      (''P4 (COUNT)'', Num 0), (''P4 (SUM MTTR)'', Num 0), (''P4 (AVG MTTR)'', NaN),
      (''P5 (COUNT)'', Num 0), (''P5 (SUM MTTR)'', Num 0), (''P5 (AVG MTTR)'', NaN)]"

definition avg_cells_U :: "(string \<times> cell) list" where
  "avg_cells_U =
     [(''P1 (COUNT)'', Num 1), (''P1 (SUM MTTR)'', Num 45), (''P1 (AVG MTTR)'', Num 45),
      (''P2 (COUNT)'', Num (1 / 2)), (''P2 (SUM MTTR)'', Num 5), (''P2 (AVG MTTR)'', Num 10),
      (''P3 (COUNT)'', Num 0), (''P3 (SUM MTTR)'', Num 0), (''P3 (AVG MTTR)'', NaN),
      (''P4 (COUNT)'', Num 0), (''P4 (SUM MTTR)'', Num 0), (''P4 (AVG MTTR)'', NaN),
      (''P5 (COUNT)'', Num 0), (''P5 (SUM MTTR)'', Num 0), (''P5 (AVG MTTR)'', NaN)]"

definition summary_U :: "(cell \<times> (string \<times> cell) list) list" where
  "summary_U =
     [(Str ''Jan-2025'', jan_cells_U), (Str ''Dec-2025'', dec_cells_U), (Str ''AVG'', avg_cells_U)]"

section \<open>Properties of the metric calculators\<close>











section \<open>Sorting by a key that may fail\<close>

lemma those_eq_Some: "those xs = Some ys \<longleftrightarrow> xs = map Some ys"
  by (induction xs arbitrary: ys) (auto split: option.splits)

lemma those_eq_None: "those xs = None \<longleftrightarrow> None \<in> set xs"
  by (induction xs) (auto split: option.splits)

lemma with_keys_Some:
  "with_keys key xs = Some kxs \<longleftrightarrow>
     (\<forall>x\<in>set xs. key x \<noteq> None) \<and> kxs = map (\<lambda>x. (the (key x), x)) xs"
proof (induction xs arbitrary: kxs)
  case Nil
  then show ?case by (auto simp add: with_keys_def)
next
  case (Cons x xs)
  then show ?case
    by (cases "key x"; cases "with_keys key xs") (auto simp add: with_keys_def)
qed

lemma with_keys_None: "with_keys key xs = None \<longleftrightarrow> (\<exists>x\<in>set xs. key x = None)"
  by (auto simp add: with_keys_def those_eq_None)

lemma insort_key_decorated:
  "insort_key fst (f x, x) (map (\<lambda>x. (f x, x)) ys) = map (\<lambda>x. (f x, x)) (insort_key f x ys)"
  by (induction ys) auto

lemma sort_key_decorated:
  "sort_key fst (map (\<lambda>x. (f x, x)) xs) = map (\<lambda>x. (f x, x)) (sort_key f xs)"
  by (induction xs) (auto simp add: insort_key_decorated)

lemma sorted_with_key_Inr:
  "sorted_with_key key xs = Inr ys \<longleftrightarrow>
     (\<forall>x\<in>set xs. key x \<noteq> None) \<and> ys = sort_key (\<lambda>x. the (key x)) xs"
proof (cases "with_keys key xs")
  case None
  then have "sorted_with_key key xs = Inl ValueError"
    by (simp add: sorted_with_key_def)
  moreover from None have "\<exists>x\<in>set xs. key x = None"
    by (simp add: with_keys_None)
  ultimately show ?thesis by auto
next
  case (Some kxs)
  then have k: "\<forall>x\<in>set xs. key x \<noteq> None" and kxs: "kxs = map (\<lambda>x. (the (key x), x)) xs"
    by (simp_all add: with_keys_Some)
  have "sorted_with_key key xs = Inr (sort_key (\<lambda>x. the (key x)) xs)"
    by (simp add: sorted_with_key_def Some kxs sort_key_decorated comp_def)
  with k show ?thesis by auto
qed

lemma sorted_with_key_Inl:
  "sorted_with_key key xs = Inl e \<longleftrightarrow> e = ValueError \<and> (\<exists>x\<in>set xs. key x = None)"
proof (cases "with_keys key xs")
  case None
  then have "sorted_with_key key xs = Inl ValueError"
    by (simp add: sorted_with_key_def)
  moreover from None have "\<exists>x\<in>set xs. key x = None"
    by (simp add: with_keys_None)
  ultimately show ?thesis by auto
next
  case (Some kxs)
  then have k: "\<forall>x\<in>set xs. key x \<noteq> None"
    by (simp add: with_keys_Some)
  from Some have "sorted_with_key key xs = Inr (map snd (sort_key fst kxs))"
    by (simp add: sorted_with_key_def)
  with k show ?thesis by auto
qed



section \<open>Properties of the filters\<close>

lemma isin_iff: "isin v xs \<longleftrightarrow> (\<exists>x\<in>set xs. v = Some x)"
  by (cases v) (auto simp add: isin_def)

lemma dropna_filter:
  "dropna (map f (filter (\<lambda>r. f r \<noteq> None) df)) = dropna (map f df)"
  by (induction df) (auto simp add: dropna_def)

lemma set_dropna: "set (dropna xs) = {x. Some x \<in> set xs}"
  by (induction xs) (auto simp add: dropna_def split: option.splits)

lemma set_unique: "set (unique xs) = set xs"
  by (simp add: unique_def)

lemma distinct_unique: "distinct (unique xs)"
  by (simp add: unique_def)

text \<open>
  C7. The filter (line 60) keeps, in their order, exactly the records whose month bucket is
  one of the selected months and whose priority is one of the selected priorities. With an
  empty selection on either side it returns the empty table. It is a total function: the
  expression has no failing branch.
\<close>

theorem filtered_df_exact:
  "filtered_df df sm sp =
     filter (\<lambda>row. (\<exists>m\<in>set sm. month_year row = Some m) \<and>
                   (\<exists>p\<in>set sp. priority row = Some p)) df \<and>
   filtered_df df [] sp = [] \<and> filtered_df df sm [] = []"
  by (simp add: filtered_df_def isin_iff)

theorem filtered_df_exact_witness:
  "filtered_df [row_A, row_N, row_B] [''Jan-2025''] [P1] = [row_A, row_B] \<and>
   filtered_df [row_A, row_N, row_B] [] [P1] = [] \<and>
   filtered_df [row_A, row_N, row_B] [''Jan-2025''] [] = []"
  using filtered_df_exact [of "[row_A, row_N, row_B]" "[''Jan-2025'']" "[P1]"]
    filtered_df_exact [of "[row_A, row_N, row_B]" "[]" "[P1]"]
    filtered_df_exact [of "[row_A, row_N, row_B]" "[''Jan-2025'']" "[]"]
  by (simp add: row_A_def row_B_def row_N_def)

text \<open>
  C4, as stated, fails: the raw data view (line 123) and the "Main Data" sheet (line 159)
  show \<open>filtered_df\<close>, and a record with a null bucket passes no month selection. In
  \<open>table_N\<close> the record \<open>row_N\<close> has no restoration date; under the default selection (all
  options of both filters) it is not in the filtered table.
\<close>

theorem null_bucket_counterexample:
  "row_N \<in> set table_N \<and> restored_at row_N = None \<and>
   add_month_year row_N = row_N \<and> add_month_year row_B = row_B \<and>
   priority row_N = Some P1 \<and>
   months table_N = Inr [''Jan-2025''] \<and> priorities table_N = [P1] \<and>
   row_N \<notin> set (filtered_df table_N [''Jan-2025''] [P1])"
  by code_simp

text \<open>
  C4, amended. A record whose restoration date is null gets a null bucket (line 21); the
  records with a null bucket add nothing to the option list of the month filter; and such
  a record is in the filtered table, hence in the raw data view and in the "Main Data"
  sheet, for no selection of months and priorities.
\<close>

theorem null_bucket_dropped:
  "(restored_at row = None \<longrightarrow> month_year (add_month_year row) = None) \<and>
   months df = months (filter (\<lambda>r. month_year r \<noteq> None) df) \<and>
   (month_year row = None \<longrightarrow> row \<notin> set (filtered_df df sm sp))"
proof -
  have "months df = months (filter (\<lambda>r. month_year r \<noteq> None) df)"
    unfolding months_def dropna_filter ..
  then show ?thesis
    by (simp add: add_month_year_def filtered_df_def isin_def)
qed

theorem null_bucket_dropped_witness:
  "restored_at row_N = None \<and> month_year (add_month_year row_N) = None \<and>
   month_year row_N = None \<and> months table_N = months [row_B] \<and>
   row_N \<notin> set (filtered_df table_N [''Jan-2025''] [P1])"
  using null_bucket_dropped [of row_N table_N "[''Jan-2025'']" "[P1]"]
  by (simp add: row_N_def table_N_def row_B_def)

section \<open>Properties of attaching the metrics\<close>

lemma calc_mtd_extra: "calc_mtd (row \<lparr> extra := e \<rparr>) = calc_mtd row"
  by (simp add: calc_mtd_def)

lemma calc_mtr_extra: "calc_mtr (row \<lparr> extra := e \<rparr>) = calc_mtr row"
  by (simp add: calc_mtr_def)

lemma apply_rows_Inr:
  "apply_rows f df = Inr vs \<longleftrightarrow> map f df = map Inr vs"
proof (induction df arbitrary: vs)
  case Nil
  then show ?case by auto
next
  case (Cons row df)
  show ?case
  proof (cases "f row")
    case (Inl e)
    then show ?thesis by (cases vs) auto
  next
    case (Inr v)
    show ?thesis
    proof (cases "apply_rows f df")
      case (Inl e)
      with Cons.IH have "map f df \<noteq> map Inr ws" for ws
        by auto
      with Inl Inr show ?thesis by (cases vs) auto
    next
      case inr: (Inr ws)
      with Cons.IH [of ws] have "map f df = map Inr ws"
        by simp
      with inr Inr show ?thesis by (cases vs) auto
    qed
  qed
qed

lemma apply_rows_nth:
  assumes "apply_rows f df = Inr vs"
  shows "length vs = length df" and "i < length df \<Longrightarrow> f (df ! i) = Inr (vs ! i)"
proof -
  from assms have m: "map f df = map Inr vs"
    by (simp add: apply_rows_Inr)
  then show l: "length vs = length df"
    by (metis length_map)
  show "f (df ! i) = Inr (vs ! i)" if "i < length df"
    using that l nth_map [of i df f] nth_map [of i vs Inr] m by simp
qed

lemma set_column_nth:
  assumes "length vs = length df" and "i < length df"
  shows "set_column col vs df ! i =
           (df ! i) \<lparr> extra := AList.update col (metric_cell (vs ! i)) (extra (df ! i)) \<rparr>"
  using assms by (simp add: set_column_def)

lemma length_set_column: "length vs = length df \<Longrightarrow> length (set_column col vs df) = length df"
  by (simp add: set_column_def)

lemma add_metrics_Inr:
  assumes "add_metrics df = Inr df'"
  shows "\<exists>vs ws. length df' = length df \<and>
    (\<forall>i<length df. calc_mtd (df ! i) = Inr (vs ! i) \<and> calc_mtr (df ! i) = Inr (ws ! i) \<and>
       df' ! i = (df ! i) \<lparr> extra := AList.update ''Final MTR'' (metric_cell (ws ! i))
                  (AList.update ''Final MTD'' (metric_cell (vs ! i)) (extra (df ! i))) \<rparr>)"
proof -
  from assms obtain vs where vs: "apply_rows calc_mtd df = Inr vs"
    by (auto simp add: add_metrics_def assign_def split: sum.splits)
  let ?df1 = "set_column ''Final MTD'' vs df"
  from assms vs obtain ws where ws: "apply_rows calc_mtr ?df1 = Inr ws"
    and df': "df' = set_column ''Final MTR'' ws ?df1"
    by (auto simp add: add_metrics_def assign_def split: sum.splits)
  have lv: "length vs = length df"
    using vs by (rule apply_rows_nth)
  then have l1: "length ?df1 = length df"
    by (rule length_set_column)
  have lw: "length ws = length df"
    using apply_rows_nth(1) [OF ws] l1 by simp
  have l': "length df' = length df"
    using lw l1 by (simp add: df' length_set_column)
  have d: "calc_mtd (df ! i) = Inr (vs ! i)" if "i < length df" for i
    using vs that by (rule apply_rows_nth)
  have r: "calc_mtr (df ! i) = Inr (ws ! i)" if "i < length df" for i
  proof -
    from that l1 have "calc_mtr (?df1 ! i) = Inr (ws ! i)"
      using apply_rows_nth(2) [OF ws, of i] by simp
    then show ?thesis
      by (simp add: set_column_nth [OF lv that] calc_mtr_extra)
  qed
  have n: "df' ! i = (df ! i) \<lparr> extra := AList.update ''Final MTR'' (metric_cell (ws ! i))
                  (AList.update ''Final MTD'' (metric_cell (vs ! i)) (extra (df ! i))) \<rparr>"
    if "i < length df" for i
  proof -
    from that l1 lw have "df' ! i =
        (?df1 ! i) \<lparr> extra := AList.update ''Final MTR'' (metric_cell (ws ! i)) (extra (?df1 ! i)) \<rparr>"
      unfolding df' by (simp add: set_column_nth)
    then show ?thesis
      by (simp add: set_column_nth [OF lv that])
  qed
  from l' d r n show ?thesis
    by blast
qed

lemma add_metrics_returns:
  "(\<exists>df'. add_metrics df = Inr df') \<longleftrightarrow>
     (\<forall>row\<in>set df. (\<exists>v. calc_mtd row = Inr v) \<and> (\<exists>w. calc_mtr row = Inr w))"
proof
  assume "\<exists>df'. add_metrics df = Inr df'"
  then obtain df' where "add_metrics df = Inr df'" ..
  then obtain vs ws where
    d: "\<And>i. i < length df \<Longrightarrow> calc_mtd (df ! i) = Inr (vs ! i)" and
    r: "\<And>i. i < length df \<Longrightarrow> calc_mtr (df ! i) = Inr (ws ! i)"
    using add_metrics_Inr [of df df'] by blast
  show "\<forall>row\<in>set df. (\<exists>v. calc_mtd row = Inr v) \<and> (\<exists>w. calc_mtr row = Inr w)"
  proof
    fix row assume "row \<in> set df"
    then obtain i where "i < length df" "row = df ! i"
      by (auto simp add: in_set_conv_nth)
    with d [of i] r [of i] show "(\<exists>v. calc_mtd row = Inr v) \<and> (\<exists>w. calc_mtr row = Inr w)"
      by auto
  qed
next
  assume a: "\<forall>row\<in>set df. (\<exists>v. calc_mtd row = Inr v) \<and> (\<exists>w. calc_mtr row = Inr w)"
  let ?vs = "map (\<lambda>row. case calc_mtd row of Inr v \<Rightarrow> v | Inl e \<Rightarrow> None) df"
  have "map calc_mtd df = map Inr ?vs"
    using a by (auto split: sum.splits)
  then have vs: "apply_rows calc_mtd df = Inr ?vs"
    by (simp only: apply_rows_Inr)
  let ?df1 = "set_column ''Final MTD'' ?vs df"
  let ?ws = "map (\<lambda>row. case calc_mtr row of Inr v \<Rightarrow> v | Inl e \<Rightarrow> None) ?df1"
  have "\<forall>row\<in>set ?df1. \<exists>w. calc_mtr row = Inr w"
    using a by (auto simp add: set_column_def calc_mtr_extra dest!: set_zip_leftD)
  then have "map calc_mtr ?df1 = map Inr ?ws"
    by (auto split: sum.splits)
  then have ws: "apply_rows calc_mtr ?df1 = Inr ?ws"
    by (simp only: apply_rows_Inr)
  have "add_metrics df = Inr (set_column ''Final MTR'' ?ws ?df1)"
    by (simp add: add_metrics_def assign_def vs ws)
  then show "\<exists>df'. add_metrics df = Inr df'" ..
qed

lemma add_metrics_upload_S: "add_metrics upload_S = Inr table_S"
  by code_simp

text \<open>
  C10, as stated, fails on a table that already has a column named "Final MTD" (the
  program's own "Main Data" sheet, uploaded again, is one): line 47 replaces its values.
  In \<open>row_X\<close> the uploaded cell 99 becomes 0.
\<close>

theorem add_metrics_overwrites:
  "map_of (extra row_X) ''Final MTD'' = Some (Num 99) \<and>
   add_metrics [row_X] =
     Inr [row_X \<lparr> extra := [(''Final MTD'', Num 0), (''Owner'', Str ''ops''),
                             (''Final MTR'', Num 60)] \<rparr>]"
  by code_simp

text \<open>
  C10, amended. Attaching the metrics returns a table exactly when the two calculators
  return on every record. The table it returns has the records of the given one, in their
  order; in every record the typed columns are unchanged and so is every other column whose
  name is neither "Final MTD" nor "Final MTR"; these two columns hold the values of the
  two calculators on the record, and the set of column names grows by exactly these two
  names.
\<close>

theorem add_metrics_frame:
  "((\<exists>df'. add_metrics df = Inr df') \<longleftrightarrow>
      (\<forall>row\<in>set df. (\<exists>v. calc_mtd row = Inr v) \<and> (\<exists>w. calc_mtr row = Inr w))) \<and>
   (add_metrics df = Inr df' \<longrightarrow>
      length df' = length df \<and>
      (\<forall>i < length df.
         (df' ! i) \<lparr> extra := [] \<rparr> = (df ! i) \<lparr> extra := [] \<rparr> \<and>
         (\<forall>c. c \<noteq> ''Final MTD'' \<and> c \<noteq> ''Final MTR'' \<longrightarrow>
              map_of (extra (df' ! i)) c = map_of (extra (df ! i)) c) \<and>
         (\<exists>v. calc_mtd (df ! i) = Inr v \<and>
              map_of (extra (df' ! i)) ''Final MTD'' = Some (metric_cell v)) \<and>
         (\<exists>w. calc_mtr (df ! i) = Inr w \<and>
              map_of (extra (df' ! i)) ''Final MTR'' = Some (metric_cell w)) \<and>
         set (map fst (extra (df' ! i))) =
           set (map fst (extra (df ! i))) \<union> {''Final MTD'', ''Final MTR''}))"
proof -
  have "length df' = length df \<and>
      (\<forall>i < length df.
         (df' ! i) \<lparr> extra := [] \<rparr> = (df ! i) \<lparr> extra := [] \<rparr> \<and>
         (\<forall>c. c \<noteq> ''Final MTD'' \<and> c \<noteq> ''Final MTR'' \<longrightarrow>
              map_of (extra (df' ! i)) c = map_of (extra (df ! i)) c) \<and>
         (\<exists>v. calc_mtd (df ! i) = Inr v \<and>
              map_of (extra (df' ! i)) ''Final MTD'' = Some (metric_cell v)) \<and>
         (\<exists>w. calc_mtr (df ! i) = Inr w \<and>
              map_of (extra (df' ! i)) ''Final MTR'' = Some (metric_cell w)) \<and>
         set (map fst (extra (df' ! i))) =
           set (map fst (extra (df ! i))) \<union> {''Final MTD'', ''Final MTR''})"
    if "add_metrics df = Inr df'"
  proof -
    from that obtain vs ws where
      l: "length df' = length df" and
      d: "\<And>i. i < length df \<Longrightarrow> calc_mtd (df ! i) = Inr (vs ! i)" and
      r: "\<And>i. i < length df \<Longrightarrow> calc_mtr (df ! i) = Inr (ws ! i)" and
      n: "\<And>i. i < length df \<Longrightarrow>
         df' ! i = (df ! i) \<lparr> extra := AList.update ''Final MTR'' (metric_cell (ws ! i))
                    (AList.update ''Final MTD'' (metric_cell (vs ! i)) (extra (df ! i))) \<rparr>"
      using add_metrics_Inr [of df df'] by blast
    show ?thesis
      using l by (auto simp add: n d r update_conv' dom_update)
  qed
  then show ?thesis
    using add_metrics_returns [of df] by blast
qed

theorem add_metrics_frame_witness:
  "add_metrics [row_X] =
     Inr [row_X \<lparr> extra := [(''Final MTD'', Num 0), (''Owner'', Str ''ops''),
                             (''Final MTR'', Num 60)] \<rparr>] \<and>
   calc_mtd row_X = Inr (Some 0) \<and> calc_mtr row_X = Inr (Some 60) \<and>
   (\<exists>df'. add_metrics [row_X] = Inr df' \<and> length df' = 1 \<and>
      (df' ! 0) \<lparr> extra := [] \<rparr> = row_X \<lparr> extra := [] \<rparr> \<and>
      map_of (extra (df' ! 0)) ''Owner'' = Some (Str ''ops'') \<and>
      map_of (extra (df' ! 0)) ''Final MTD'' = Some (Num 0) \<and>
      map_of (extra (df' ! 0)) ''Final MTR'' = Some (Num 60))"
proof -
  let ?df' = "[row_X \<lparr> extra := [(''Final MTD'', Num 0), (''Owner'', Str ''ops''),
                             (''Final MTR'', Num 60)] \<rparr>]"
  have e: "add_metrics [row_X] = Inr ?df'" by code_simp
  have a: "calc_mtd row_X = Inr (Some 0)" by code_simp
  have b: "calc_mtr row_X = Inr (Some 60)" by code_simp
  have c: "map_of (extra row_X) ''Owner'' = Some (Str ''ops'')" by code_simp
  from add_metrics_frame [of "[row_X]" ?df'] e a b c
  have "length ?df' = 1 \<and>
      (?df' ! 0) \<lparr> extra := [] \<rparr> = row_X \<lparr> extra := [] \<rparr> \<and>
      map_of (extra (?df' ! 0)) ''Owner'' = Some (Str ''ops'') \<and>
      map_of (extra (?df' ! 0)) ''Final MTD'' = Some (Num 0) \<and>
      map_of (extra (?df' ! 0)) ''Final MTR'' = Some (Num 60)"
    by (simp add: metric_cell_def)
  with e a b show ?thesis by blast
qed

section \<open>Properties of the full summary\<close>

lemma summary_dict_explicit:
  "summary_dict grouped label m =
     (''Month-Year'', Str m) #
     concat (map (\<lambda>p. [(count_column p, fst (triad grouped m p)),
                        (sum_column label p, fst (snd (triad grouped m p))),
                        (avg_column label p, snd (snd (triad grouped m p)))]) priority_order)"
  by (simp add: summary_dict_def priority_order_def count_column_def sum_column_def
      avg_column_def priority_name_def case_prod_beta)

lemma summary_dict_keys:
  "map fst (summary_dict grouped label m) = ''Month-Year'' # summary_columns label"
  by (simp add: summary_dict_explicit summary_columns_def priority_order_def)

lemma summary_columns_distinct: "distinct (''Month-Year'' # summary_columns label)"
  by (simp add: summary_columns_def priority_order_def count_column_def sum_column_def
      avg_column_def priority_name_def)

lemma summary_columns_length: "length (summary_columns label) = 15"
  by (simp add: summary_columns_def priority_order_def)

lemma summary_dict_count:
  "map_of (summary_dict grouped label m) (count_column p) = Some (fst (triad grouped m p))"
  by (cases p) (simp_all add: summary_dict_explicit priority_order_def count_column_def
      sum_column_def avg_column_def priority_name_def)

lemma summary_dict_sum:
  "map_of (summary_dict grouped label m) (sum_column label p) = Some (fst (snd (triad grouped m p)))"
  by (cases p) (simp_all add: summary_dict_explicit priority_order_def count_column_def
      sum_column_def avg_column_def priority_name_def)

lemma summary_dict_avg:
  "map_of (summary_dict grouped label m) (avg_column label p) = Some (snd (snd (triad grouped m p)))"
  by (cases p) (simp_all add: summary_dict_explicit priority_order_def count_column_def
      sum_column_def avg_column_def priority_name_def)

lemma unique_append_subset:
  assumes "distinct ks" and "set rest \<subseteq> set ks"
  shows "unique (ks @ rest) = ks"
proof -
  have "remdups (rev rest @ rev ks) = remdups (rev ks)"
    using assms(2) by (simp add: remdups_append)
  moreover from assms(1) have "remdups (rev ks) = rev ks"
    by (simp add: distinct_remdups_id)
  ultimately show ?thesis
    by (simp add: unique_def)
qed

lemma columns_of_same_keys:
  assumes "distinct ks" and "\<forall>d\<in>set ds. map fst d = ks" and "ds \<noteq> []"
  shows "columns_of ds = ks"
proof -
  from assms(3) obtain d ds' where ds: "ds = d # ds'" by (cases ds) auto
  have "set (concat (map (map fst) ds')) \<subseteq> set ks"
    using assms(2) ds by auto
  then show ?thesis
    using assms(1,2) ds by (simp add: columns_of_def unique_append_subset)
qed

lemma cells_of_distinct_row:
  "distinct (map fst row) \<Longrightarrow> map (\<lambda>c. (c, cell_at row c)) (map fst row) = row"
proof (induction row)
  case Nil
  then show ?case by simp
next
  case (Cons kv row)
  obtain k v where kv: "kv = (k, v)" by (cases kv)
  from Cons.prems have k: "k \<notin> fst ` set row" and d: "distinct (map fst row)"
    by (simp_all add: kv)
  have "map (\<lambda>c. (c, cell_at (kv # row) c)) (map fst row) = map (\<lambda>c. (c, cell_at row c)) (map fst row)"
    using k by (auto simp add: cell_at_def kv)
  with Cons.IH [OF d] show ?case
    by (simp add: kv cell_at_def)
qed

lemma summary_dict_index: "cell_at (summary_dict grouped label m) ''Month-Year'' = Str m"
  by (simp add: summary_dict_explicit cell_at_def)

lemma summary_dict_cells:
  "map (\<lambda>c. (c, cell_at (summary_dict grouped label m) c)) (summary_columns label) =
     tl (summary_dict grouped label m)"
proof -
  let ?row = "summary_dict grouped label m"
  have "distinct (map fst ?row)"
    using summary_columns_distinct [of label] by (simp only: summary_dict_keys)
  then have "map (\<lambda>c. (c, cell_at ?row c)) (map fst ?row) = ?row"
    by (rule cells_of_distinct_row)
  then have "tl (map (\<lambda>c. (c, cell_at ?row c)) (''Month-Year'' # summary_columns label)) = tl ?row"
    by (simp only: summary_dict_keys)
  then show ?thesis by simp
qed

lemma set_index_summary:
  assumes "ms \<noteq> []"
  shows "set_index ''Month-Year'' (map (summary_dict grouped label) ms) =
           Inr (map (\<lambda>m. (Str m, tl (summary_dict grouped label m))) ms)"
proof -
  have cols: "columns_of (map (summary_dict grouped label) ms) = ''Month-Year'' # summary_columns label"
    by (rule columns_of_same_keys)
      (use assms summary_columns_distinct [of label] in \<open>auto simp add: summary_dict_keys\<close>)
  have rm: "removeAll ''Month-Year'' (''Month-Year'' # summary_columns label) = summary_columns label"
    using summary_columns_distinct [of label] by simp
  show ?thesis
    unfolding set_index_def cols rm
    by (simp add: summary_dict_index summary_dict_cells)
qed

lemma set_index_empty: "set_index c [] = Inl KeyError"
  by (simp add: set_index_def columns_of_def unique_def)

lemma numeric_metric_cell: "numeric (metric_cell v)"
  by (cases v) (simp_all add: numeric_def metric_cell_def)

lemma numeric_Num: "numeric (Num q)" "numeric NaN"
  by (simp_all add: numeric_def)

lemma numeric_triad:
  "numeric (fst (triad grouped m p))" "numeric (fst (snd (triad grouped m p)))"
  "numeric (snd (snd (triad grouped m p)))"
  by (simp_all add: triad_def numeric_Num numeric_metric_cell split: list.splits)

lemma numeric_cell_at:
  "\<forall>kv\<in>set row. numeric (snd kv) \<Longrightarrow> numeric (cell_at row c)"
  by (auto simp add: cell_at_def numeric_def split: option.splits dest!: map_of_SomeD)

lemma numeric_summary_cells:
  "numeric (cell_at (tl (summary_dict grouped label m)) c)"
  by (rule numeric_cell_at)
    (simp add: summary_dict_explicit priority_order_def numeric_triad)

lemma mean_row_summary:
  assumes "ms \<noteq> []"
  shows "mean_row (map (\<lambda>m. (Str m, tl (summary_dict grouped label m))) ms) =
           map (\<lambda>c. (c, column_mean (column (map (\<lambda>m. (Str m, tl (summary_dict grouped label m))) ms) c)))
             (summary_columns label)"
proof -
  let ?rows = "map (\<lambda>m. (Str m, tl (summary_dict grouped label m))) ms"
  from assms obtain m ms' where ms: "ms = m # ms'" by (cases ms) auto
  have keys: "map fst (tl (summary_dict grouped label m)) = summary_columns label"
    using summary_dict_keys [of grouped label m] by (simp add: map_tl)
  have all: "list_all numeric (column ?rows c)" for c
    by (simp add: column_def list_all_iff numeric_summary_cells)
  show ?thesis
    unfolding mean_row_def
    by (simp add: all) (simp add: ms keys)
qed

lemma full_summary_Inr:
  assumes "full_summary observed df metric label = Inr tbl"
  obtains ms where
    "sorted_with_key to_datetime_bY (unique (map g_month (grouped_agg observed df metric))) = Inr ms"
    "ms \<noteq> []"
    "tbl = map (\<lambda>m. (Str m, tl (summary_dict (grouped_agg observed df metric) label m))) ms @
           [(Str ''AVG'',
             map (\<lambda>c. (c, column_mean (column (map (\<lambda>m. (Str m, tl (summary_dict (grouped_agg observed df metric) label m))) ms) c)))
               (summary_columns label))]"
proof -
  let ?g = "grouped_agg observed df metric"
  from assms obtain ms where
    ms: "sorted_with_key to_datetime_bY (unique (map g_month ?g)) = Inr ms"
    by (auto simp add: full_summary_def Let_def split: sum.splits)
  have ne: "ms \<noteq> []"
  proof
    assume "ms = []"
    with assms ms show False
      by (simp add: full_summary_def Let_def set_index_empty)
  qed
  from assms ms ne have "tbl = map (\<lambda>m. (Str m, tl (summary_dict ?g label m))) ms @
      [(Str ''AVG'', mean_row (map (\<lambda>m. (Str m, tl (summary_dict ?g label m))) ms))]"
    by (simp add: full_summary_def Let_def set_index_summary)
  with ne have "tbl = map (\<lambda>m. (Str m, tl (summary_dict ?g label m))) ms @
      [(Str ''AVG'',
        map (\<lambda>c. (c, column_mean (column (map (\<lambda>m. (Str m, tl (summary_dict ?g label m))) ms) c)))
          (summary_columns label))]"
    by (simp add: mean_row_summary [OF ne])
  with ms ne show thesis by (rule that)
qed

lemma group_key_Some:
  "group_key row = Some (m, p) \<longleftrightarrow> month_year row = Some m \<and> priority row = Some p"
  by (auto simp add: group_key_def split: option.splits)

lemma set_group_keys_observed:
  "set (group_keys True df) =
     {(m, p). \<exists>row\<in>set df. month_year row = Some m \<and> priority row = Some p}"
proof -
  have "Some (m, p) = group_key row \<longleftrightarrow> month_year row = Some m \<and> priority row = Some p"
    for m p row
    using group_key_Some [of row m p] by auto
  then show ?thesis
    by (auto simp add: group_keys_def set_unique set_dropna image_iff)
qed

lemma set_group_keys_all:
  "set (group_keys False df) = {(m, p). \<exists>row\<in>set df. month_year row = Some m}"
proof -
  have all: "p \<in> set priority_order" for p
    by (cases p) (simp_all add: priority_order_def)
  have months: "m \<in> set (sort (unique (dropna (map month_year df)))) \<longleftrightarrow>
      (\<exists>row\<in>set df. month_year row = Some m)" for m
    by (auto simp add: set_unique set_dropna image_iff) metis
  have "(m, q) \<in> set (group_keys False df) \<longleftrightarrow> (\<exists>row\<in>set df. month_year row = Some m)" for m q
    using all [of q] months [of m] by (simp add: group_keys_def) blast
  then show ?thesis
    by auto
qed

lemma distinct_group_keys: "distinct (group_keys observed df)"
proof (cases observed)
  case True
  then show ?thesis
    by (simp add: group_keys_def distinct_unique)
next
  case False
  have "distinct priority_order"
    by (simp add: priority_order_def)
  moreover have "distinct (sort (unique (dropna (map month_year df))))"
    by (simp add: distinct_unique)
  ultimately have "distinct (List.product (sort (unique (dropna (map month_year df)))) priority_order)"
    by (rule distinct_product [rotated])
  with False show ?thesis
    by (simp add: group_keys_def product_concat_map)
qed

lemma group_values_explicit:
  "group_values df metric (m, p) =
     dropna (map (metric_value metric)
       (filter (\<lambda>row. month_year row = Some m \<and> priority row = Some p) df))"
  by (simp add: group_values_def group_key_Some)

lemma filter_eq_distinct:
  "distinct xs \<Longrightarrow> filter (\<lambda>k. k = x) xs = (if x \<in> set xs then [x] else [])"
  by (induction xs) (auto simp add: filter_empty_conv)

lemma grouped_agg_match:
  "filter (\<lambda>g. g_month g = m \<and> g_priority g = p) (grouped_agg observed df metric) =
     (if (m, p) \<in> set (group_keys observed df)
      then [\<lparr> g_month = m, g_priority = p,
              g_count = length (group_values df metric (m, p)),
              g_sum = sum_list (group_values df metric (m, p)),
              g_avg = mean (group_values df metric (m, p)) \<rparr>]
      else [])"
proof -
  have "filter (\<lambda>g. g_month g = m \<and> g_priority g = p) (grouped_agg observed df metric) =
        map (\<lambda>(m, p). \<lparr> g_month = m, g_priority = p,
                     g_count = length (group_values df metric (m, p)),
                     g_sum = sum_list (group_values df metric (m, p)),
                     g_avg = mean (group_values df metric (m, p)) \<rparr>)
          (filter (\<lambda>k. k = (m, p)) (group_keys observed df))"
    by (auto simp add: grouped_agg_def filter_map comp_def case_prod_beta prod_eq_iff
        intro!: arg_cong [where f = "map _"] filter_cong)
  then show ?thesis
    by (simp add: filter_eq_distinct distinct_group_keys)
qed

lemma triad_grouped:
  "triad (grouped_agg observed df metric) m p =
     (if (m, p) \<in> set (group_keys observed df)
      then (Num (of_nat (length (group_values df metric (m, p)))),
            Num (sum_list (group_values df metric (m, p))),
            metric_cell (mean (group_values df metric (m, p))))
      else (Num 0, Num 0, Num 0))"
  by (simp add: triad_def grouped_agg_match)

lemma grouped_months:
  "set (unique (map g_month (grouped_agg observed df metric))) = fst ` set (group_keys observed df)"
  by (force simp add: set_unique grouped_agg_def image_iff case_prod_beta)

lemma full_summary_S: "full_summary True table_S ''Final MTR'' ''MTTR'' = Inr summary_S"
  by code_simp

lemma full_summary_U: "full_summary False table_S ''Final MTR'' ''MTTR'' = Inr summary_U"
  by code_simp

lemma summary_cells_lookup:
  "map_of (tl (summary_dict grouped label m)) (count_column p) = Some (fst (triad grouped m p))"
  "map_of (tl (summary_dict grouped label m)) (sum_column label p) = Some (fst (snd (triad grouped m p)))"
  "map_of (tl (summary_dict grouped label m)) (avg_column label p) = Some (snd (snd (triad grouped m p)))"
  by (cases p; simp add: summary_dict_explicit priority_order_def count_column_def
      sum_column_def avg_column_def priority_name_def)+

lemma summary_cells_keys:
  "map fst (tl (summary_dict grouped label m)) = summary_columns label"
  using summary_dict_keys [of grouped label m] by (simp add: map_tl)

lemma metric_cell_mean:
  "vs \<noteq> [] \<Longrightarrow> metric_cell (mean vs) = Num (sum_list vs / of_nat (length vs))"
  "metric_cell (mean []) = NaN"
  by (simp_all add: metric_cell_def mean_def)

lemma dropna_all_None: "(\<forall>x\<in>set xs. f x = None) \<Longrightarrow> dropna (map f xs) = []"
  by (induction xs) (simp_all add: dropna_def)

lemma month_row_cells:
  assumes "full_summary observed df metric label = Inr tbl"
    and "(Str m, cells) \<in> set (butlast tbl)"
  shows "cells = tl (summary_dict (grouped_agg observed df metric) label m)"
    and "m \<in> fst ` set (group_keys observed df)"
proof -
  let ?g = "grouped_agg observed df metric"
  from assms(1) obtain ms where
    sorted: "sorted_with_key to_datetime_bY (unique (map g_month ?g)) = Inr ms" and
    tbl: "tbl = map (\<lambda>m. (Str m, tl (summary_dict ?g label m))) ms @
           [(Str ''AVG'',
             map (\<lambda>c. (c, column_mean (column (map (\<lambda>m. (Str m, tl (summary_dict ?g label m))) ms) c)))
               (summary_columns label))]"
    by (rule full_summary_Inr)
  from assms(2) show "cells = tl (summary_dict ?g label m)"
    unfolding tbl by auto
  from assms(2) have "m \<in> set ms"
    unfolding tbl by auto
  moreover from sorted have "set ms = set (unique (map g_month ?g))"
    by (auto simp add: sorted_with_key_Inr)
  ultimately show "m \<in> fst ` set (group_keys observed df)"
    by (simp only: grouped_months)
qed

lemma month_row_triad:
  assumes "full_summary observed df metric label = Inr tbl"
    and "(Str m, cells) \<in> set (butlast tbl)"
  shows "(map_of cells (count_column p), map_of cells (sum_column label p),
          map_of cells (avg_column label p)) =
         (if (m, p) \<in> set (group_keys observed df)
          then (Some (Num (of_nat (length (group_values df metric (m, p))))),
                Some (Num (sum_list (group_values df metric (m, p)))),
                Some (metric_cell (mean (group_values df metric (m, p)))))
          else (Some (Num 0), Some (Num 0), Some (Num 0)))"
  unfolding month_row_cells(1) [OF assms] summary_cells_lookup triad_grouped
  by simp

lemma no_record_no_value:
  assumes "\<not> (\<exists>r\<in>set df. month_year r = Some m \<and> priority r = Some p)"
  shows "group_values df metric (m, p) = []"
proof -
  from assms have "filter (\<lambda>r. month_year r = Some m \<and> priority r = Some p) df = []"
    by (auto simp add: filter_empty_conv)
  then show ?thesis
    by (simp add: group_values_explicit dropna_def)
qed

lemma table_columns:
  assumes "full_summary observed df metric label = Inr tbl"
  shows "\<forall>row\<in>set tbl. map fst (snd row) = summary_columns label"
proof -
  let ?g = "grouped_agg observed df metric"
  from assms obtain ms where
    tbl: "tbl = map (\<lambda>m. (Str m, tl (summary_dict ?g label m))) ms @
           [(Str ''AVG'',
             map (\<lambda>c. (c, column_mean (column (map (\<lambda>m. (Str m, tl (summary_dict ?g label m))) ms) c)))
               (summary_columns label))]"
    by (rule full_summary_Inr)
  show ?thesis
    unfolding tbl by (auto simp add: summary_cells_keys comp_def)
qed

text \<open>
  The triads of a month row, in either grouping. A pair that some record has holds the
  number of the non-null values of its group, their sum and their mean (null when there is
  no value). A pair that no record has holds (0, 0, 0) with the grouping by observed keys,
  from the branch of lines 142 to 145; with the grouping by all categories that branch is
  never taken, the pair has an empty group of its own, and its triad is (0, 0, null).
\<close>

lemma present_pair_triad:
  assumes "full_summary observed df metric label = Inr tbl"
    and "(Str m, cells) \<in> set (butlast tbl)"
    and "\<exists>r\<in>set df. month_year r = Some m \<and> priority r = Some p"
  shows "map_of cells (count_column p) = Some (Num (of_nat (length (group_values df metric (m, p)))))"
    and "map_of cells (sum_column label p) = Some (Num (sum_list (group_values df metric (m, p))))"
    and "map_of cells (avg_column label p) = Some (metric_cell (mean (group_values df metric (m, p))))"
proof -
  from assms(3) have "(m, p) \<in> set (group_keys observed df)"
    by (cases observed) (auto simp add: set_group_keys_observed set_group_keys_all)
  with month_row_triad [OF assms(1,2), of p]
  show "map_of cells (count_column p) = Some (Num (of_nat (length (group_values df metric (m, p)))))"
    and "map_of cells (sum_column label p) = Some (Num (sum_list (group_values df metric (m, p))))"
    and "map_of cells (avg_column label p) = Some (metric_cell (mean (group_values df metric (m, p))))"
    by simp_all
qed

lemma absent_pair_triad:
  assumes "full_summary observed df metric label = Inr tbl"
    and "(Str m, cells) \<in> set (butlast tbl)"
    and "\<not> (\<exists>r\<in>set df. month_year r = Some m \<and> priority r = Some p)"
  shows "map_of cells (count_column p) = Some (Num 0)"
    and "map_of cells (sum_column label p) = Some (Num 0)"
    and "map_of cells (avg_column label p) = Some (if observed then Num 0 else NaN)"
proof -
  have "(map_of cells (count_column p), map_of cells (sum_column label p),
          map_of cells (avg_column label p)) =
        (Some (Num 0), Some (Num 0), Some (if observed then Num 0 else NaN))"
  proof (cases observed)
    case True
    with assms(3) have "(m, p) \<notin> set (group_keys observed df)"
      by (auto simp add: set_group_keys_observed)
    with month_row_triad [OF assms(1,2), of p] True show ?thesis
      by simp
  next
    case False
    from month_row_cells(2) [OF assms(1,2)] False have "(m, p) \<in> set (group_keys observed df)"
      by (auto simp add: set_group_keys_all)
    with month_row_triad [OF assms(1,2), of p] False no_record_no_value [OF assms(3), of metric]
    show ?thesis
      by (simp add: metric_cell_mean)
  qed
  then show "map_of cells (count_column p) = Some (Num 0)"
    and "map_of cells (sum_column label p) = Some (Num 0)"
    and "map_of cells (avg_column label p) = Some (if observed then Num 0 else NaN)"
    by simp_all
qed

lemma null_group_triad:
  assumes "full_summary observed df metric label = Inr tbl"
    and "(Str m, cells) \<in> set (butlast tbl)"
    and "\<exists>r\<in>set df. month_year r = Some m \<and> priority r = Some p"
    and "\<forall>r\<in>set df. month_year r = Some m \<and> priority r = Some p \<longrightarrow>
           metric_value metric r = None"
  shows "map_of cells (count_column p) = Some (Num 0)"
    and "map_of cells (sum_column label p) = Some (Num 0)"
    and "map_of cells (avg_column label p) = Some NaN"
proof -
  have "group_values df metric (m, p) = []"
    unfolding group_values_explicit
    by (rule dropna_all_None) (use assms(4) in auto)
  with present_pair_triad [OF assms(1,2,3), of ]
  show "map_of cells (count_column p) = Some (Num 0)"
    and "map_of cells (sum_column label p) = Some (Num 0)"
    and "map_of cells (avg_column label p) = Some NaN"
    by (simp_all add: metric_cell_mean)
qed

text \<open>
  C3, on the code. With the grouping by all categories (the default of \<^verbatim>\<open>groupby\<close>
  before pandas 3.0), the MTTR summary of \<open>table_S\<close> has (0, 0, null) for priority P2 in
  January, a pair that no record has: the default triad (0, 0, 0) of lines 143 to 145 is
  not reached. With the grouping by observed keys the same cell group is (0, 0, 0). The
  15 columns are there in both. On a table without records no summary is returned at all.
\<close>

theorem absent_pair_unobserved:
  "full_summary False table_S ''Final MTR'' ''MTTR'' = Inr summary_U \<and>
   (Str ''Jan-2025'', jan_cells_U) \<in> set (butlast summary_U) \<and>
   \<not> (\<exists>r\<in>set table_S. month_year r = Some ''Jan-2025'' \<and> priority r = Some P2) \<and>
   map_of jan_cells_U (count_column P2) = Some (Num 0) \<and>
   map_of jan_cells_U (sum_column ''MTTR'' P2) = Some (Num 0) \<and>
   map_of jan_cells_U (avg_column ''MTTR'' P2) = Some NaN \<and>
   map fst jan_cells_U = summary_columns ''MTTR'' \<and> length (summary_columns ''MTTR'') = 15 \<and>
   full_summary True table_S ''Final MTR'' ''MTTR'' = Inr summary_S \<and>
   (Str ''Jan-2025'', jan_cells) \<in> set (butlast summary_S) \<and>
   map_of jan_cells (avg_column ''MTTR'' P2) = Some (Num 0) \<and>
   full_summary False [] ''Final MTR'' ''MTTR'' = Inl KeyError \<and>
   full_summary True [] ''Final MTR'' ''MTTR'' = Inl KeyError"
  by code_simp

text \<open>
  C9, on the code. With the grouping by all categories, in the December row of the MTTR
  summary of \<open>table_S\<close> priority P1 (one record, its value null) and priority P3 (no
  record) have the same triad (0, 0, null): the two cases cannot be told apart. It is the
  defect of C3: the branch of lines 142 to 145 that gives an absent pair (0, 0, 0) is not
  reached. With the grouping by observed keys P3 has (0, 0, 0).
\<close>

theorem null_group_unobserved:
  "full_summary False table_S ''Final MTR'' ''MTTR'' = Inr summary_U \<and>
   (Str ''Dec-2025'', dec_cells_U) \<in> set (butlast summary_U) \<and>
   (\<exists>r\<in>set table_S. month_year r = Some ''Dec-2025'' \<and> priority r = Some P1) \<and>
   \<not> (\<exists>r\<in>set table_S. month_year r = Some ''Dec-2025'' \<and> priority r = Some P1 \<and>
        metric_value ''Final MTR'' r \<noteq> None) \<and>
   \<not> (\<exists>r\<in>set table_S. month_year r = Some ''Dec-2025'' \<and> priority r = Some P3) \<and>
   map_of dec_cells_U (count_column P1) = Some (Num 0) \<and>
   map_of dec_cells_U (sum_column ''MTTR'' P1) = Some (Num 0) \<and>
   map_of dec_cells_U (avg_column ''MTTR'' P1) = Some NaN \<and>
   map_of dec_cells_U (count_column P3) = Some (Num 0) \<and>
   map_of dec_cells_U (sum_column ''MTTR'' P3) = Some (Num 0) \<and>
   map_of dec_cells_U (avg_column ''MTTR'' P3) = Some NaN \<and>
   full_summary True table_S ''Final MTR'' ''MTTR'' = Inr summary_S \<and>
   map_of dec_cells (avg_column ''MTTR'' P1) = Some NaN \<and>
   map_of dec_cells (avg_column ''MTTR'' P3) = Some (Num 0)"
  by code_simp

lemma map_of_tabulate:
  "c \<in> set ks \<Longrightarrow> map_of (map (\<lambda>k. (k, f k)) ks) c = Some (f c)"
  by (induction ks) auto

lemma AVG_not_a_month: "to_datetime_bY ''AVG'' = None"
  by code_simp

lemma numbers_all_Num:
  "\<forall>v\<in>set vs. \<exists>q. v = Num q \<Longrightarrow> length (numbers vs) = length vs"
  by (induction vs) (auto simp add: numbers_def)

lemma numbers_non_null:
  "list_all numeric vs \<Longrightarrow> length (numbers vs) = length (filter (\<lambda>v. v \<noteq> NaN) vs)"
  by (induction vs) (auto simp add: numbers_def numeric_def split: cell.splits)

lemma triad_count_sum_Num:
  "\<exists>q. fst (triad grouped m p) = Num q" "\<exists>q. fst (snd (triad grouped m p)) = Num q"
  by (simp_all add: triad_def split: list.splits)

lemma cell_at_lookup: "map_of row c = Some v \<Longrightarrow> cell_at row c = v"
  by (simp add: cell_at_def)

text \<open>
  C5, as stated, fails where a column has a null cell: the mean of line 149 skips it. In
  the MTTR summary of \<open>table_S\<close>, with either grouping, the column "P1 (AVG MTTR)" holds
  45 for January and null for December (a group with no value); the "AVG" row holds 45
  there, the mean over one of the two month rows, and not the mean over both (which is no
  number, or 45 / 2 with the null read as 0).
\<close>

theorem avg_row_counterexample:
  "full_summary True table_S ''Final MTR'' ''MTTR'' = Inr summary_S \<and>
   column (butlast summary_S) ''P1 (AVG MTTR)'' = [Num 45, NaN] \<and>
   cell_at (snd (last summary_S)) ''P1 (AVG MTTR)'' = Num 45 \<and>
   mean_over_all_rows (column (butlast summary_S) ''P1 (AVG MTTR)'') = NaN \<and>
   full_summary False table_S ''Final MTR'' ''MTTR'' = Inr summary_U \<and>
   column (butlast summary_U) ''P1 (AVG MTTR)'' = [Num 45, NaN] \<and>
   cell_at (snd (last summary_U)) ''P1 (AVG MTTR)'' = Num 45 \<and>
   mean_over_all_rows (column (butlast summary_U) ''P1 (AVG MTTR)'') = NaN"
  by code_simp

text \<open>
  C5, amended. The table that \<open>full_summary\<close> returns ends with one row labelled "AVG",
  after at least one month row, none of which has that label. Its value in each data column
  is the arithmetic mean of the non-null cells of the column over the month rows (null when
  there is none); every cell that is not null counts, the zeros of the absent pairs among
  them. The COUNT and SUM columns have no null cell, so there the mean is over all the
  month rows.
\<close>

theorem avg_row_means:
  assumes "full_summary observed df metric label = Inr tbl"
  shows
    "butlast tbl \<noteq> [] \<and> fst (last tbl) = Str ''AVG'' \<and>
     (\<forall>row\<in>set (butlast tbl). fst row \<noteq> Str ''AVG'') \<and>
     (\<forall>c\<in>set (summary_columns label).
        map_of (snd (last tbl)) c =
          Some (if numbers (column (butlast tbl) c) = [] then NaN
                else Num (sum_list (numbers (column (butlast tbl) c)) /
                          of_nat (length (numbers (column (butlast tbl) c))))) \<and>
        length (numbers (column (butlast tbl) c)) =
          length (filter (\<lambda>v. v \<noteq> NaN) (column (butlast tbl) c))) \<and>
     (\<forall>p. length (numbers (column (butlast tbl) (count_column p))) = length (butlast tbl) \<and>
          length (numbers (column (butlast tbl) (sum_column label p))) = length (butlast tbl))"
proof -
  let ?g = "grouped_agg observed df metric"
  let ?rows = "\<lambda>ms. map (\<lambda>m. (Str m, tl (summary_dict ?g label m))) ms"
  from assms obtain ms where
    sorted: "sorted_with_key to_datetime_bY (unique (map g_month ?g)) = Inr ms" and
    ms: "ms \<noteq> []" and
    tbl: "tbl = ?rows ms @
           [(Str ''AVG'', map (\<lambda>c. (c, column_mean (column (?rows ms) c))) (summary_columns label))]"
    by (rule full_summary_Inr)
  have rows: "butlast tbl = ?rows ms"
    and last: "last tbl = (Str ''AVG'', map (\<lambda>c. (c, column_mean (column (?rows ms) c))) (summary_columns label))"
    by (simp_all add: tbl)
  from sorted have "\<forall>m\<in>set ms. to_datetime_bY m \<noteq> None"
    by (auto simp add: sorted_with_key_Inr)
  then have labels: "\<forall>row\<in>set (butlast tbl). fst row \<noteq> Str ''AVG''"
    unfolding rows using AVG_not_a_month by auto
  have means: "map_of (snd (last tbl)) c =
          Some (if numbers (column (butlast tbl) c) = [] then NaN
                else Num (sum_list (numbers (column (butlast tbl) c)) /
                          of_nat (length (numbers (column (butlast tbl) c)))))"
    if "c \<in> set (summary_columns label)" for c
    unfolding last rows using that
    by (simp add: map_of_tabulate column_mean_def metric_cell_def mean_def)
  have numeric: "list_all numeric (column (butlast tbl) c)" for c
    unfolding rows by (simp add: column_def list_all_iff numeric_summary_cells)
  have count: "length (numbers (column (butlast tbl) (count_column p))) = length (butlast tbl)" for p
  proof -
    have "length (numbers (column (butlast tbl) (count_column p))) =
        length (column (butlast tbl) (count_column p))"
      by (rule numbers_all_Num)
        (use triad_count_sum_Num(1) in
          \<open>auto simp add: rows column_def cell_at_lookup [OF summary_cells_lookup(1)]\<close>)
    then show ?thesis by (simp add: column_def)
  qed
  have sum: "length (numbers (column (butlast tbl) (sum_column label p))) = length (butlast tbl)" for p
  proof -
    have "length (numbers (column (butlast tbl) (sum_column label p))) =
        length (column (butlast tbl) (sum_column label p))"
      by (rule numbers_all_Num)
        (use triad_count_sum_Num(2) in
          \<open>auto simp add: rows column_def cell_at_lookup [OF summary_cells_lookup(2)]\<close>)
    then show ?thesis by (simp add: column_def)
  qed
  from ms have "butlast tbl \<noteq> []" by (simp add: rows)
  moreover have "fst (last tbl) = Str ''AVG''" by (simp add: last)
  ultimately show ?thesis
    using labels means numeric count sum by (simp add: numbers_non_null)
qed

theorem avg_row_means_witness:
  "full_summary True table_S ''Final MTR'' ''MTTR'' = Inr summary_S \<and>
   butlast summary_S \<noteq> [] \<and> fst (last summary_S) = Str ''AVG'' \<and>
   numbers (column (butlast summary_S) ''P1 (AVG MTTR)'') = [45] \<and>
   map_of (snd (last summary_S)) ''P1 (AVG MTTR)'' = Some (Num 45) \<and>
   numbers (column (butlast summary_S) ''P2 (AVG MTTR)'') = [0, 10] \<and>
   map_of (snd (last summary_S)) ''P2 (AVG MTTR)'' = Some (Num 5) \<and>
   length (numbers (column (butlast summary_S) (count_column P1))) = 2 \<and>
   full_summary False table_S ''Final MTR'' ''MTTR'' = Inr summary_U \<and>
   numbers (column (butlast summary_U) ''P2 (AVG MTTR)'') = [10] \<and>
   map_of (snd (last summary_U)) ''P2 (AVG MTTR)'' = Some (Num 10)"
proof -
  note t = avg_row_means [OF full_summary_S]
  note u = avg_row_means [OF full_summary_U]
  have n3: "numbers (column (butlast summary_U) ''P2 (AVG MTTR)'') = [10]"
    by code_simp
  have c1: "''P1 (AVG MTTR)'' \<in> set (summary_columns ''MTTR'')"
    and c2: "''P2 (AVG MTTR)'' \<in> set (summary_columns ''MTTR'')"
    by code_simp+
  have n1: "numbers (column (butlast summary_S) ''P1 (AVG MTTR)'') = [45]"
    and n2: "numbers (column (butlast summary_S) ''P2 (AVG MTTR)'') = [0, 10]"
    by code_simp+
  have len: "length (butlast summary_S) = 2"
    by (simp add: summary_S_def)
  from t c1 have "map_of (snd (last summary_S)) ''P1 (AVG MTTR)'' =
      Some (if numbers (column (butlast summary_S) ''P1 (AVG MTTR)'') = [] then NaN
            else Num (sum_list (numbers (column (butlast summary_S) ''P1 (AVG MTTR)'')) /
                      of_nat (length (numbers (column (butlast summary_S) ''P1 (AVG MTTR)'')))))"
    by blast
  then have a1: "map_of (snd (last summary_S)) ''P1 (AVG MTTR)'' = Some (Num 45)"
    unfolding n1 by simp
  from t c2 have "map_of (snd (last summary_S)) ''P2 (AVG MTTR)'' =
      Some (if numbers (column (butlast summary_S) ''P2 (AVG MTTR)'') = [] then NaN
            else Num (sum_list (numbers (column (butlast summary_S) ''P2 (AVG MTTR)'')) /
                      of_nat (length (numbers (column (butlast summary_S) ''P2 (AVG MTTR)'')))))"
    by blast
  then have a2: "map_of (snd (last summary_S)) ''P2 (AVG MTTR)'' = Some (Num 5)"
    unfolding n2 by simp
  from t have "length (numbers (column (butlast summary_S) (count_column P1))) = length (butlast summary_S)"
    by blast
  with len have a3: "length (numbers (column (butlast summary_S) (count_column P1))) = 2"
    by simp
  from u c2 have "map_of (snd (last summary_U)) ''P2 (AVG MTTR)'' =
      Some (if numbers (column (butlast summary_U) ''P2 (AVG MTTR)'') = [] then NaN
            else Num (sum_list (numbers (column (butlast summary_U) ''P2 (AVG MTTR)'')) /
                      of_nat (length (numbers (column (butlast summary_U) ''P2 (AVG MTTR)'')))))"
    by blast
  then have a4: "map_of (snd (last summary_U)) ''P2 (AVG MTTR)'' = Some (Num 10)"
    unfolding n3 by simp
  from t have "butlast summary_S \<noteq> [] \<and> fst (last summary_S) = Str ''AVG''"
    by blast
  with a1 a2 a3 a4 n1 n2 n3 show ?thesis
    by (simp add: full_summary_S full_summary_U)
qed

section \<open>The order of the months\<close>












section \<open>When the full summary is produced\<close>

text \<open>
  \<open>full_summary\<close> returns a table exactly when the data has a group and every bucket
  parses. On a table without groups (an empty selection in either filter gives one) line
  148 raises \<^verbatim>\<open>KeyError\<close>: the table built from no dictionary has no "Month-Year" column.
\<close>

lemma unique_Nil_iff: "unique xs = [] \<longleftrightarrow> xs = []"
  by (simp add: unique_def)

lemma full_summary_no_groups:
  assumes "group_keys observed df = []"
  shows "full_summary observed df metric label = Inl KeyError"
  using assms
  by (simp add: full_summary_def grouped_agg_def unique_def sorted_with_key_def with_keys_def
      set_index_empty)

lemma filtered_df_no_selection: "filtered_df df [] sp = []" "filtered_df df sm [] = []"
  by (simp_all add: filtered_df_def isin_iff)

lemma group_keys_Nil: "group_keys observed [] = []"
  by (simp add: group_keys_def unique_def dropna_def)

lemma full_summary_empty_selection:
  "full_summary observed (filtered_df df [] sp) metric label = Inl KeyError"
  "full_summary observed (filtered_df df sm []) metric label = Inl KeyError"
  by (simp_all add: filtered_df_no_selection full_summary_no_groups group_keys_Nil)

lemma full_summary_returns:
  assumes "group_keys observed df \<noteq> []" and "\<forall>k\<in>set (group_keys observed df). to_datetime_bY (fst k) \<noteq> None"
  shows "\<exists>tbl. full_summary observed df metric label = Inr tbl"
proof -
  let ?g = "grouped_agg observed df metric"
  let ?ms = "sort_key (\<lambda>m. the (to_datetime_bY m)) (unique (map g_month ?g))"
  from assms(2) have "\<forall>m\<in>set (unique (map g_month ?g)). to_datetime_bY m \<noteq> None"
    by (simp only: grouped_months) auto
  then have s: "sorted_with_key to_datetime_bY (unique (map g_month ?g)) = Inr ?ms"
    by (simp add: sorted_with_key_Inr)
  from assms(1) have "unique (map g_month ?g) \<noteq> []"
    by (simp add: unique_Nil_iff grouped_agg_def)
  then have ne: "?ms \<noteq> []"
    by (metis length_sort length_0_conv)
  have "full_summary observed df metric label =
      Inr (map (\<lambda>m. (Str m, tl (summary_dict ?g label m))) ?ms @
        [(Str ''AVG'', mean_row (map (\<lambda>m. (Str m, tl (summary_dict ?g label m))) ?ms))])"
    by (simp add: full_summary_def Let_def s set_index_summary [OF ne])
  then show ?thesis ..
qed

end
